theory Spec2Isabelle
  imports
    Complex_Main
    "HOL-Library.Char_ord"
    "HOL-Library.List_Lexorder"
    "HOL-Library.Multiset"
begin

section \<open>Numbers, errors and dictionaries\<close>

text \<open>
  The scoring code of \<^verbatim>\<open>agents/analysis_agent.py\<close>, \<^verbatim>\<open>agents/correlation_agent.py\<close>
  and \<^verbatim>\<open>agents/impact_agent.py\<close> computes on Python floats. They are modelled as
  exact real numbers: a decimal literal such as \<^verbatim>\<open>0.45\<close> is the rational 45/100 and the
  arithmetic does not round. Only \<^verbatim>\<open>round(x, 4)\<close> rounds, and it is written out below.
  NaN and the infinities are not values of the model.
\<close>

datatype py_error = ZeroDivisionError | IndexError

text \<open>Python's \<^verbatim>\<open>/\<close> on numbers raises when the divisor is zero.\<close>

definition truediv :: "real \<Rightarrow> real \<Rightarrow> py_error + real" where
  "truediv a b = (if b = 0 then Inl ZeroDivisionError else Inr (a / b))"

text \<open>
  \<^verbatim>\<open>round(y)\<close> to an integer: the nearest one, a tie going to the even neighbour.
\<close>

definition py_round :: "real \<Rightarrow> int" where
  "py_round y =
     (let f = \<lfloor>y\<rfloor>; d = y - of_int f
      in if d < 1 / 2 then f
         else if 1 / 2 < d then f + 1
         else if even f then f else f + 1)"

text \<open>\<^verbatim>\<open>round(x, 4)\<close>: the nearest multiple of 0.0001.\<close>

definition round4 :: "real \<Rightarrow> real" where
  "round4 x = of_int (py_round (x * 10000)) / 10000"

text \<open>\<^verbatim>\<open>d.get(key, default)\<close> on a field that may be absent.\<close>

definition dict_get :: "'a option \<Rightarrow> 'a \<Rightarrow> 'a" where
  "dict_get field dflt = (case field of None \<Rightarrow> dflt | Some v \<Rightarrow> v)"

section \<open>Configuration (core/config.py)\<close>

record impact_weights =
  w_sentiment :: real
  w_movement :: real
  w_volume :: real

definition IMPACT_WEIGHTS :: impact_weights where
  "IMPACT_WEIGHTS = \<lparr>w_sentiment = 0.45, w_movement = 0.35, w_volume = 0.20\<rparr>"

definition SENTIMENT_SCORE_MAP :: "(string \<times> real) list" where
  "SENTIMENT_SCORE_MAP =
     [(''1 star'', - 1.0),
      (''2 stars'', - 0.5),
      (''3 stars'', 0.0),
      (''4 stars'', 0.5),
      (''5 stars'', 1.0),
      (''neutral'', 0.0),
      (''positive'', 0.5),
      (''negative'', - 0.5)]"

section \<open>The scorers of AnalysisAgent\<close>

text \<open>One entry of \<^verbatim>\<open>market_data.json\<close>: a dictionary whose keys may be missing.\<close>

record quote =
  q_open :: "real option"
  q_close :: "real option"
  q_high :: "real option"
  q_low :: "real option"
  q_volume :: "int option"

text \<open>
  \<^verbatim>\<open>_movement_score\<close>:
  \<^verbatim>\<open>return round((c - o) / o, 4) if o != 0 else 0.0\<close>
\<close>

definition movement_score :: "quote \<Rightarrow> py_error + real" where
  "movement_score entry =
     (let opn = dict_get (q_open entry) 0;
          cls = dict_get (q_close entry) 0
      in if opn \<noteq> 0
         then (case truediv (cls - opn) opn of
                 Inl err \<Rightarrow> Inl err
               | Inr q \<Rightarrow> Inr (round4 q))
         else Inr 0.0)"

text \<open>
  \<^verbatim>\<open>CorrelationAgent.intraday_movement_score\<close>: the same score, written with an
  early return.
\<close>

definition intraday_movement_score :: "quote \<Rightarrow> py_error + real" where
  "intraday_movement_score entry =
     (let open_price = dict_get (q_open entry) 0;
          close_price = dict_get (q_close entry) 0
      in if open_price = 0 then Inr 0.0
         else (case truediv (close_price - open_price) open_price of
                 Inl err \<Rightarrow> Inl err
               | Inr q \<Rightarrow> Inr (round4 q)))"

text \<open>\<^verbatim>\<open>_volume_score\<close>: three strict thresholds, tried from the highest.\<close>

definition volume_score :: "int \<Rightarrow> real" where
  "volume_score volume =
     (if volume > 50000000 then 1.0
      else if volume > 10000000 then 0.5
      else if volume > 1000000 then 0.2
      else 0.0)"

text \<open>
  \<^verbatim>\<open>_impact_score\<close>, with the weight table it reads as an argument;
  \<open>impact_score\<close> is the function at the table of \<^verbatim>\<open>core/config.py\<close>.
\<close>

definition impact_score_with :: "impact_weights \<Rightarrow> real \<Rightarrow> real \<Rightarrow> real \<Rightarrow> real" where
  "impact_score_with w sentiment_num movement vol_score =
     (let sign = (if sentiment_num \<ge> 0 then 1 else - 1);
          raw = w_sentiment w * sentiment_num
              + w_movement w * movement
              + w_volume w * vol_score * sign
      in round4 raw)"

definition impact_score :: "real \<Rightarrow> real \<Rightarrow> real \<Rightarrow> real" where
  "impact_score = impact_score_with IMPACT_WEIGHTS"

text \<open>\<^verbatim>\<open>AnalysisAgent._trend\<close>: an if/elif chain, each test reached only when the
  earlier ones failed.\<close>

definition trend :: "real \<Rightarrow> string" where
  "trend score =
     (if score > 0.25 then ''Strong Bullish''
      else if score > 0.05 then ''Moderate Bullish''
      else if score \<ge> - 0.05 then ''Neutral''
      else if score \<ge> - 0.25 then ''Moderate Bearish''
      else ''Strong Bearish'')"

text \<open>\<^verbatim>\<open>ImpactAgent.trend_strength\<close>: the second classifier, with two-sided tests.\<close>

definition trend_strength :: "real \<Rightarrow> string" where
  "trend_strength score =
     (if score > 0.25 then ''Strong Bullish''
      else if 0.05 < score \<and> score \<le> 0.25 then ''Moderate Bullish''
      else if - 0.05 \<le> score \<and> score \<le> 0.05 then ''Neutral''
      else if - 0.25 \<le> score \<and> score < - 0.05 then ''Moderate Bearish''
      else ''Strong Bearish'')"

text \<open>
  Start-up: \<^verbatim>\<open>core/config.py\<close> builds the weight table without inspecting it, and
  \<^verbatim>\<open>AnalysisAgent.__init__\<close> only runs \<^verbatim>\<open>os.makedirs("data", exist_ok=True)\<close>.
  The weight table in force and the set of existing directories are the state.
\<close>

definition AnalysisAgent_init :: "impact_weights \<Rightarrow> string set \<Rightarrow> py_error + string set" where
  "AnalysisAgent_init w dirs = Inr (insert ''data'' dirs)"

section \<open>The sentiment number\<close>

text \<open>
  \<^verbatim>\<open>_sentiment_num\<close>: \<^verbatim>\<open>SENTIMENT_SCORE_MAP.get(label.strip().lower(), 0.0)\<close>.
  Strings are modelled on ASCII: \<open>py_strip\<close> removes the ASCII white space of
  \<^verbatim>\<open>str.strip\<close> from both ends and \<open>py_lower\<close> maps A..Z to a..z.
\<close>

definition is_space :: "char \<Rightarrow> bool" where
  "is_space c \<longleftrightarrow> (of_char c :: nat) \<in> {9, 10, 11, 12, 13, 28, 29, 30, 31, 32}"

definition py_strip :: "string \<Rightarrow> string" where
  "py_strip s = rev (dropWhile is_space (rev (dropWhile is_space s)))"

definition py_lower :: "string \<Rightarrow> string" where
  "py_lower s =
     map (\<lambda>c. if 65 \<le> (of_char c :: nat) \<and> (of_char c :: nat) \<le> 90
              then char_of (of_char c + 32 :: nat) else c) s"

definition sentiment_num :: "string \<Rightarrow> real" where
  "sentiment_num label =
     (case map_of SENTIMENT_SCORE_MAP (py_lower (py_strip label)) of
        None \<Rightarrow> 0.0
      | Some v \<Rightarrow> v)"

section \<open>The join of AnalysisAgent.run\<close>

text \<open>One article of \<^verbatim>\<open>news_processed.json\<close>; every key may be missing.\<close>

record article =
  a_title :: "string option"
  a_summary :: "string option"
  a_sentiment :: "string option"
  a_companies :: "string list option"
  a_keywords :: "string list option"
  a_timestamp :: "string option"

text \<open>The dictionary appended to \<^verbatim>\<open>rows\<close> for one matched ticker.\<close>

record match_row =
  r_symbol :: string
  r_sentiment_label :: string
  r_sentiment_num :: real
  r_movement_score :: real
  r_volume :: int
  r_volume_score :: real
  r_impact_score :: real
  r_trend :: string
  r_open :: real
  r_close :: real
  r_high :: real
  r_low :: real
  r_news_headline :: string
  r_matched_news :: string
  r_summary :: string
  r_keywords :: "string list"
  r_timestamp :: string

text \<open>
  The body of the inner loop for a ticker that has market data \<open>mkt\<close>. The reading of
  the clock, \<^verbatim>\<open>str(datetime.now())\<close>, is the argument \<open>now\<close>. Every reading
  within one run is taken to be the same string.
\<close>

definition match_row_of :: "string \<Rightarrow> article \<Rightarrow> string \<Rightarrow> quote \<Rightarrow> py_error + match_row" where
  "match_row_of now article ticker mkt =
     (let title = dict_get (a_title article) [];
          summary = dict_get (a_summary article) [];
          sent_label = dict_get (a_sentiment article) ''neutral'';
          sent_num = sentiment_num sent_label;
          keywords = dict_get (a_keywords article) [];
          timestamp = dict_get (a_timestamp article) now
      in case movement_score mkt of
           Inl err \<Rightarrow> Inl err
         | Inr movement \<Rightarrow>
             (let vol_score = volume_score (dict_get (q_volume mkt) 0);
                  impact = impact_score sent_num movement vol_score
              in Inr \<lparr>r_symbol = ticker,
                      r_sentiment_label = sent_label,
                      r_sentiment_num = sent_num,
                      r_movement_score = movement,
                      r_volume = dict_get (q_volume mkt) 0,
                      r_volume_score = vol_score,
                      r_impact_score = impact,
                      r_trend = trend impact,
                      r_open = dict_get (q_open mkt) 0,
                      r_close = dict_get (q_close mkt) 0,
                      r_high = dict_get (q_high mkt) 0,
                      r_low = dict_get (q_low mkt) 0,
                      r_news_headline = title,
                      r_matched_news = title,
                      r_summary = summary,
                      r_keywords = keywords,
                      r_timestamp = timestamp\<rparr>))"

text \<open>
  \<^verbatim>\<open>for ticker in companies\<close>: a ticker that is not a key of \<^verbatim>\<open>market_data\<close> is
  passed over by \<^verbatim>\<open>continue\<close>; otherwise its row is appended to \<^verbatim>\<open>rows\<close>.
\<close>

fun companies_loop ::
  "string \<Rightarrow> article \<Rightarrow> (string \<rightharpoonup> quote) \<Rightarrow> string list \<Rightarrow> match_row list
     \<Rightarrow> py_error + match_row list" where
  "companies_loop now article market_data [] rows = Inr rows"
| "companies_loop now article market_data (ticker # rest) rows =
     (case market_data ticker of
        None \<Rightarrow> companies_loop now article market_data rest rows
      | Some mkt \<Rightarrow>
          (case match_row_of now article ticker mkt of
             Inl err \<Rightarrow> Inl err
           | Inr row \<Rightarrow> companies_loop now article market_data rest (rows @ [row])))"

text \<open>\<^verbatim>\<open>for article in news_list\<close>.\<close>

fun news_loop ::
  "string \<Rightarrow> (string \<rightharpoonup> quote) \<Rightarrow> article list \<Rightarrow> match_row list
     \<Rightarrow> py_error + match_row list" where
  "news_loop now market_data [] rows = Inr rows"
| "news_loop now market_data (article # rest) rows =
     (case companies_loop now article market_data (dict_get (a_companies article) []) rows of
        Inl err \<Rightarrow> Inl err
      | Inr rows' \<Rightarrow> news_loop now market_data rest rows')"

section \<open>Aggregation and ranking in AnalysisAgent.run\<close>

text \<open>
  The data frame is the list of its rows. \<^verbatim>\<open>df.groupby("symbol")\<close> yields one group
  per distinct symbol, the groups in ascending order of the symbol and the rows of a
  group in the order of the frame.
\<close>

definition groupby_symbol :: "match_row list \<Rightarrow> (string \<times> match_row list) list" where
  "groupby_symbol df =
     map (\<lambda>name. (name, filter (\<lambda>r. r_symbol r = name) df))
       (sort (remdups (map r_symbol df)))"

text \<open>
  \<^verbatim>\<open>Series.mean\<close>, \<^verbatim>\<open>Series.max\<close>, \<^verbatim>\<open>Series.min\<close> and \<^verbatim>\<open>Series.idxmax\<close>
  (the position of the first occurrence of the maximum) on a column without missing
  values. They are only used on the column of a group, which is not empty.
\<close>

definition series_mean :: "real list \<Rightarrow> real" where
  "series_mean xs = sum_list xs / of_nat (length xs)"

definition series_max :: "real list \<Rightarrow> real" where
  "series_max xs = Max (set xs)"

definition series_min :: "real list \<Rightarrow> real" where
  "series_min xs = Min (set xs)"

definition idxmax :: "real list \<Rightarrow> nat" where
  "idxmax xs = length (takeWhile (\<lambda>x. x \<noteq> series_max xs) xs)"

record ticker_summary =
  s_symbol :: string
  s_avg_impact :: real
  s_max_impact :: real
  s_min_impact :: real
  s_article_count :: nat
  s_trend :: string
  s_open :: real
  s_close :: real
  s_volume :: int
  s_top_headline :: string
  s_top_summary :: string
  s_sentiment_label :: string

text \<open>
  The function applied to each group \<open>g\<close> named \<open>name\<close>. \<^verbatim>\<open>iloc[0]\<close> raises
  IndexError on an empty column.
\<close>

definition summarise :: "string \<Rightarrow> match_row list \<Rightarrow> py_error + ticker_summary" where
  "summarise name g =
     (let impact = map r_impact_score g
      in case g of
           [] \<Rightarrow> Inl IndexError
         | first # _ \<Rightarrow>
             Inr \<lparr>s_symbol = name,
                  s_avg_impact = round4 (series_mean impact),
                  s_max_impact = round4 (series_max impact),
                  s_min_impact = round4 (series_min impact),
                  s_article_count = length g,
                  s_trend = trend (series_mean impact),
                  s_open = r_open first,
                  s_close = r_close first,
                  s_volume = r_volume first,
                  s_top_headline = r_news_headline (g ! idxmax impact),
                  s_top_summary = r_summary (g ! idxmax impact),
                  s_sentiment_label = r_sentiment_label (g ! idxmax impact)\<rparr>)"

fun apply_groups :: "(string \<times> match_row list) list \<Rightarrow> py_error + ticker_summary list" where
  "apply_groups [] = Inr []"
| "apply_groups ((name, g) # rest) =
     (case summarise name g of
        Inl err \<Rightarrow> Inl err
      | Inr s \<Rightarrow>
          (case apply_groups rest of
             Inl err \<Rightarrow> Inl err
           | Inr ss \<Rightarrow> Inr (s # ss)))"

definition aggregate :: "match_row list \<Rightarrow> py_error + ticker_summary list" where
  "aggregate df = apply_groups (groupby_symbol df)"

text \<open>
  \<^verbatim>\<open>agg.sort_values("avg_impact", ascending=...)\<close> is pandas' sort, called with its
  default \<^verbatim>\<open>kind="quicksort"\<close>. It is library code outside the repository and is an
  argument of the model, \<open>sort_values ascending frame\<close>. What pandas documents for the
  default kind is \<open>sort_values_contract\<close>: the result holds the same records, in
  ascending or descending order of \<^verbatim>\<open>avg_impact\<close>; the order of records with equal
  keys is promised for the kinds \<^verbatim>\<open>mergesort\<close> and \<^verbatim>\<open>stable\<close> only.
\<close>

type_synonym sorter = "bool \<Rightarrow> ticker_summary list \<Rightarrow> ticker_summary list"


text \<open>
  Two sorts that meet the contract. The first keeps records with equal keys in input
  order for both directions; the second returns them in reversed input order.
\<close>

definition stable_sort_values :: sorter where
  "stable_sort_values ascending frame =
     (if ascending then sort_key s_avg_impact frame
      else rev (sort_key s_avg_impact (rev frame)))"


record ranked_output =
  generated_at :: string
  top_10_bullish :: "ticker_summary list"
  top_10_bearish :: "ticker_summary list"
  aggregated :: "ticker_summary list"
  full_list :: "match_row list"

text \<open>
  \<^verbatim>\<open>AnalysisAgent.run\<close> on the two loaded files; \<^verbatim>\<open>head(10)\<close> is \<open>take 10\<close>.
  Printing and the writing of \<^verbatim>\<open>analysis_output.json\<close> are left out: the value is
  the dictionary \<^verbatim>\<open>output\<close> that is returned.
\<close>

definition run ::
  "sorter \<Rightarrow> string \<Rightarrow> article list \<Rightarrow> (string \<rightharpoonup> quote) \<Rightarrow> py_error + ranked_output" where
  "run sort_values now news_list market_data =
     (case news_loop now market_data news_list [] of
        Inl err \<Rightarrow> Inl err
      | Inr rows \<Rightarrow>
          if rows \<noteq> []
          then (case aggregate rows of
                  Inl err \<Rightarrow> Inl err
                | Inr agg \<Rightarrow>
                    Inr \<lparr>generated_at = now,
                         top_10_bullish = take 10 (sort_values False agg),
                         top_10_bearish = take 10 (sort_values True agg),
                         aggregated = agg,
                         full_list = rows\<rparr>)
          else Inr \<lparr>generated_at = now,
                    top_10_bullish = [],
                    top_10_bearish = [],
                    aggregated = [],
                    full_list = []\<rparr>)"

section \<open>CorrelationAgent.run\<close>

text \<open>
  The earlier correlator keeps one record per article and, inside it, one entry per
  mentioned ticker that has market data. The scheduled pipeline
  (\<^verbatim>\<open>crew/crew_pipeline.py\<close>) does not call it.
\<close>

record related_stock =
  rs_symbol :: string
  rs_movement_score :: real
  rs_open :: real
  rs_close :: real
  rs_high :: real
  rs_low :: real
  rs_volume :: int

record correlation_item =
  c_title :: string
  c_summary :: string
  c_sentiment :: string
  c_keywords :: "string list"
  c_companies_in_news :: "string list"
  c_timestamp :: string
  c_related_stocks_ranked :: "related_stock list"

text \<open>\<^verbatim>\<open>for ticker in companies: if ticker in market_data: ...append(...)\<close>\<close>

fun related_loop ::
  "(string \<rightharpoonup> quote) \<Rightarrow> string list \<Rightarrow> related_stock list \<Rightarrow> py_error + related_stock list" where
  "related_loop market_data [] related_stocks = Inr related_stocks"
| "related_loop market_data (ticker # rest) related_stocks =
     (case market_data ticker of
        None \<Rightarrow> related_loop market_data rest related_stocks
      | Some entry \<Rightarrow>
          (case intraday_movement_score entry of
             Inl err \<Rightarrow> Inl err
           | Inr score \<Rightarrow>
               related_loop market_data rest
                 (related_stocks @
                    [\<lparr>rs_symbol = ticker,
                      rs_movement_score = score,
                      rs_open = dict_get (q_open entry) 0,
                      rs_close = dict_get (q_close entry) 0,
                      rs_high = dict_get (q_high entry) 0,
                      rs_low = dict_get (q_low entry) 0,
                      rs_volume = dict_get (q_volume entry) 0\<rparr>])))"

text \<open>
  \<^verbatim>\<open>related_stocks.sort(key=lambda x: abs(x["movement_score"]), reverse=True)\<close>:
  Python's list sort, descending by key; it is stable, and with \<^verbatim>\<open>reverse=True\<close>
  entries with equal keys still keep their original order.
\<close>

definition sort_by_abs_movement :: "related_stock list \<Rightarrow> related_stock list" where
  "sort_by_abs_movement related_stocks =
     rev (sort_key (\<lambda>x. \<bar>rs_movement_score x\<bar>) (rev related_stocks))"

fun correlation_loop ::
  "string \<Rightarrow> (string \<rightharpoonup> quote) \<Rightarrow> article list \<Rightarrow> correlation_item list
     \<Rightarrow> py_error + correlation_item list" where
  "correlation_loop now market_data [] final_output = Inr final_output"
| "correlation_loop now market_data (article # rest) final_output =
     (let companies = dict_get (a_companies article) []
      in case related_loop market_data companies [] of
           Inl err \<Rightarrow> Inl err
         | Inr related_stocks \<Rightarrow>
             correlation_loop now market_data rest
               (final_output @
                  [\<lparr>c_title = dict_get (a_title article) [],
                    c_summary = dict_get (a_summary article) [],
                    c_sentiment = dict_get (a_sentiment article) ''neutral'',
                    c_keywords = dict_get (a_keywords article) [],
                    c_companies_in_news = companies,
                    c_timestamp = dict_get (a_timestamp article) now,
                    c_related_stocks_ranked = sort_by_abs_movement related_stocks\<rparr>]))"

definition CorrelationAgent_run ::
  "string \<Rightarrow> article list \<Rightarrow> (string \<rightharpoonup> quote) \<Rightarrow> py_error + correlation_item list" where
  "CorrelationAgent_run now news_list market_data =
     correlation_loop now market_data news_list []"

section \<open>The join as the specification words it\<close>

text \<open>
  The Correlator/Joiner of the specification, to be compared with the two loops above: for
  each article in order, for each ticker it mentions in order, one row when the ticker
  has a quote and nothing when it has none. Each row is the result of the loop body
  \<open>match_row_of\<close>, a value or an error.
\<close>

definition joiner_rows :: "string \<Rightarrow> article \<Rightarrow> (string \<rightharpoonup> quote) \<Rightarrow> string list \<Rightarrow> (py_error + match_row) list" where
  "joiner_rows now article market_data tickers =
     concat (map (\<lambda>ticker. case market_data ticker of
                               None \<Rightarrow> []
                             | Some mkt \<Rightarrow> [match_row_of now article ticker mkt]) tickers)"

definition joiner_spec :: "string \<Rightarrow> article list \<Rightarrow> (string \<rightharpoonup> quote) \<Rightarrow> (py_error + match_row) list" where
  "joiner_spec now news_list market_data =
     concat (map (\<lambda>article. joiner_rows now article market_data
                    (dict_get (a_companies article) [])) news_list)"

section \<open>Rounding\<close>




section \<open>Claims about the scorers\<close>



text \<open>
  C5. The trend classifier sends every real score to exactly one of five labels:
  above 0.25 Strong Bullish; above 0.05 and at most 0.25 Moderate Bullish; from -0.05 to
  0.05, both included, Neutral; from -0.25, included, to below -0.05 Moderate Bearish;
  below -0.25 Strong Bearish. Each label is reached, so the labels are exactly five.
\<close>

theorem trend_partition:
  "(trend s = ''Strong Bullish'' \<longleftrightarrow> s > 0.25)
   \<and> (trend s = ''Moderate Bullish'' \<longleftrightarrow> 0.05 < s \<and> s \<le> 0.25)
   \<and> (trend s = ''Neutral'' \<longleftrightarrow> - 0.05 \<le> s \<and> s \<le> 0.05)
   \<and> (trend s = ''Moderate Bearish'' \<longleftrightarrow> - 0.25 \<le> s \<and> s < - 0.05)
   \<and> (trend s = ''Strong Bearish'' \<longleftrightarrow> s < - 0.25)
   \<and> range trend = {''Strong Bullish'', ''Moderate Bullish'', ''Neutral'',
                      ''Moderate Bearish'', ''Strong Bearish''}
   \<and> card (range trend) = 5"
proof -
  have bands:
    "(trend s = ''Strong Bullish'' \<longleftrightarrow> s > 0.25)
     \<and> (trend s = ''Moderate Bullish'' \<longleftrightarrow> 0.05 < s \<and> s \<le> 0.25)
     \<and> (trend s = ''Neutral'' \<longleftrightarrow> - 0.05 \<le> s \<and> s \<le> 0.05)
     \<and> (trend s = ''Moderate Bearish'' \<longleftrightarrow> - 0.25 \<le> s \<and> s < - 0.05)
     \<and> (trend s = ''Strong Bearish'' \<longleftrightarrow> s < - 0.25)"
    by (simp add: trend_def)
  have sub: "trend x \<in> {''Strong Bullish'', ''Moderate Bullish'', ''Neutral'',
                      ''Moderate Bearish'', ''Strong Bearish''}" for x
    by (simp add: trend_def)
  have "trend 1 = ''Strong Bullish''" "trend 0.1 = ''Moderate Bullish''"
    "trend 0 = ''Neutral''" "trend (- 0.1) = ''Moderate Bearish''"
    "trend (- 1) = ''Strong Bearish''"
    by (simp_all add: trend_def)
  then have sup: "''Strong Bullish'' \<in> range trend" "''Moderate Bullish'' \<in> range trend"
    "''Neutral'' \<in> range trend" "''Moderate Bearish'' \<in> range trend"
    "''Strong Bearish'' \<in> range trend"
    by (metis rangeI)+
  have rng: "range trend = {''Strong Bullish'', ''Moderate Bullish'', ''Neutral'',
                      ''Moderate Bearish'', ''Strong Bearish''}"
  proof
    show "range trend \<subseteq> {''Strong Bullish'', ''Moderate Bullish'', ''Neutral'',
                      ''Moderate Bearish'', ''Strong Bearish''}"
      using sub by blast
    show "{''Strong Bullish'', ''Moderate Bullish'', ''Neutral'',
                      ''Moderate Bearish'', ''Strong Bearish''} \<subseteq> range trend"
      using sup by blast
  qed
  have "card (range trend) = 5"
    unfolding rng by simp
  with bands rng show ?thesis
    by blast
qed

lemma trend_strength_agrees: "trend_strength s = trend s"
  by (simp add: trend_strength_def trend_def)

text \<open>
  C6 (as amended). \<^verbatim>\<open>ImpactAgent.trend_strength\<close> and \<^verbatim>\<open>AnalysisAgent._trend\<close> are
  the same function of the score: the two-sided tests of the first repeat what the
  failed earlier tests of the second already give. At the four thresholds both answer
  Moderate Bullish for 0.25, Neutral for 0.05 and -0.05, Moderate Bearish for -0.25.
\<close>

theorem trend_strength_eq_trend:
  "trend_strength = trend
   \<and> trend_strength 0.25 = ''Moderate Bullish'' \<and> trend 0.25 = ''Moderate Bullish''
   \<and> trend_strength 0.05 = ''Neutral'' \<and> trend 0.05 = ''Neutral''
   \<and> trend_strength (- 0.05) = ''Neutral'' \<and> trend (- 0.05) = ''Neutral''
   \<and> trend_strength (- 0.25) = ''Moderate Bearish'' \<and> trend (- 0.25) = ''Moderate Bearish''"
proof -
  have "trend_strength = trend"
    by (rule ext) (rule trend_strength_agrees)
  moreover have "trend 0.25 = ''Moderate Bullish''" "trend 0.05 = ''Neutral''"
    "trend (- 0.05) = ''Neutral''" "trend (- 0.25) = ''Moderate Bearish''"
    by (simp_all add: trend_def)
  ultimately show ?thesis
    by simp
qed

text \<open>
  The claim as written, that the two classifiers differ at some score, is false: no
  score separates them, and in particular none of 0.05, -0.05, 0.25, -0.25 does.
\<close>

theorem trend_classifiers_disagree_counterexample:
  "\<not> (\<exists>s. trend_strength s \<noteq> trend s)
   \<and> trend_strength 0.05 = trend 0.05 \<and> trend_strength (- 0.05) = trend (- 0.05)
   \<and> trend_strength 0.25 = trend 0.25 \<and> trend_strength (- 0.25) = trend (- 0.25)"
  by (simp add: trend_strength_agrees)

text \<open>
  C7. The volume score of an integer volume is 1.0 above 50,000,000, else 0.5 above
  10,000,000, else 0.2 above 1,000,000, else 0.0; the comparisons are strict, so
  50,000,000 scores 0.5 and 1,000,000 scores 0.0. The score never falls when the volume
  grows, and it is one of 0.0, 0.2, 0.5, 1.0.
\<close>

theorem volume_score_steps:
  "volume_score v =
     (if v > 50000000 then 1.0 else if v > 10000000 then 0.5
      else if v > 1000000 then 0.2 else 0.0)
   \<and> volume_score 50000000 = 0.5
   \<and> volume_score 1000000 = 0.0
   \<and> (v \<le> w \<longrightarrow> volume_score v \<le> volume_score w)
   \<and> volume_score v \<in> {0.0, 0.2, 0.5, 1.0}"
  by (simp add: volume_score_def)

theorem volume_score_steps_witness:
  "volume_score 10000000 = 0.2 \<and> volume_score 10000001 = 0.5
   \<and> (10000000::int) \<le> 10000001 \<and> volume_score 10000000 \<le> volume_score 10000001"
proof -
  have "volume_score 10000000 = 0.2"
    using volume_score_steps [of 10000000 10000001] by simp
  moreover have "volume_score 10000001 = 0.5"
    using volume_score_steps [of 10000001 10000001] by simp
  ultimately show ?thesis
    by simp
qed



text \<open>
  C10 (as amended). The three weights of \<^verbatim>\<open>IMPACT_WEIGHTS\<close> are 0.45, 0.35 and 0.20
  and sum to exactly 1. Nothing checks the sum: start-up succeeds for every weight
  table, and the impact score is computed from whatever table is in force.
\<close>

theorem impact_weights_sum_unchecked:
  "w_sentiment IMPACT_WEIGHTS = 0.45 \<and> w_movement IMPACT_WEIGHTS = 0.35
   \<and> w_volume IMPACT_WEIGHTS = 0.20
   \<and> w_sentiment IMPACT_WEIGHTS + w_movement IMPACT_WEIGHTS + w_volume IMPACT_WEIGHTS = 1
   \<and> AnalysisAgent_init w dirs = Inr (insert ''data'' dirs)"
  by (simp add: IMPACT_WEIGHTS_def AnalysisAgent_init_def)

text \<open>
  The claim as written, that a weight table not summing to 1 is fatal at start-up, fails
  at the table 0.5, 0.5, 0.5 (sum 1.5): start-up returns normally and the score of
  sentiment 1, movement 0, volume score 1 is 1.0, where the table of the configuration
  gives 0.65.
\<close>

theorem startup_assertion_counterexample:
  "w_sentiment \<lparr>w_sentiment = 0.5, w_movement = 0.5, w_volume = 0.5\<rparr>
     + w_movement \<lparr>w_sentiment = 0.5, w_movement = 0.5, w_volume = 0.5\<rparr>
     + w_volume \<lparr>w_sentiment = 0.5, w_movement = 0.5, w_volume = 0.5\<rparr> = (1.5::real)
   \<and> AnalysisAgent_init \<lparr>w_sentiment = 0.5, w_movement = 0.5, w_volume = 0.5\<rparr> {}
       = Inr {''data''}
   \<and> impact_score_with \<lparr>w_sentiment = 0.5, w_movement = 0.5, w_volume = 0.5\<rparr> 1 0 1 = 1
   \<and> impact_score 1 0 1 = 0.65"
  by (simp add: AnalysisAgent_init_def impact_score_def impact_score_with_def
      IMPACT_WEIGHTS_def round4_def py_round_def)

section \<open>The pipeline never raises\<close>

lemma movement_score_total: "movement_score e = Inr (projr (movement_score e))"
  by (simp add: movement_score_def truediv_def Let_def)

lemma match_row_of_total: "match_row_of now a t mkt = Inr (projr (match_row_of now a t mkt))"
proof -
  obtain m where "movement_score mkt = Inr m"
    using movement_score_total by blast
  then show ?thesis
    by (simp add: match_row_of_def Let_def)
qed

lemma companies_loop_eq:
  "companies_loop now a market ts rows = Inr (rows @ map projr (joiner_rows now a market ts))
   \<and> map Inr (map projr (joiner_rows now a market ts)) = joiner_rows now a market ts"
proof (induction ts arbitrary: rows)
  case Nil
  then show ?case by (simp add: joiner_rows_def)
next
  case (Cons t ts)
  have split: "joiner_rows now a market (t # ts) =
      (case market t of None \<Rightarrow> [] | Some mkt \<Rightarrow> [match_row_of now a t mkt])
        @ joiner_rows now a market ts"
    by (simp add: joiner_rows_def)
  show ?case
  proof (cases "market t")
    case None
    then show ?thesis using Cons.IH split by simp
  next
    case (Some mkt)
    obtain row where row: "match_row_of now a t mkt = Inr row"
      using match_row_of_total by blast
    then show ?thesis
      using Some Cons.IH [of "rows @ [row]"] split by simp
  qed
qed

lemma news_loop_eq:
  "news_loop now market news rows = Inr (rows @ map projr (joiner_spec now news market))
   \<and> map Inr (map projr (joiner_spec now news market)) = joiner_spec now news market"
proof (induction news arbitrary: rows)
  case Nil
  then show ?case by (simp add: joiner_spec_def)
next
  case (Cons a news)
  have split: "joiner_spec now (a # news) market =
      joiner_rows now a market (dict_get (a_companies a) []) @ joiner_spec now news market"
    by (simp add: joiner_spec_def)
  show ?case
    using companies_loop_eq [of now a market "dict_get (a_companies a) []"] Cons.IH
    by (simp add: split)
qed








section \<open>Claims about aggregation\<close>



text \<open>
  The trend of a summary is the classification of the mean before rounding, so it need
  not be the classification of the rounded avg_impact stored beside it: the scores 0.05,
  0.05, 0.0501 have a mean just above 0.05 that rounds to 0.05.
\<close>

lemma trend_of_mean_before_rounding:
  "trend (series_mean [0.05, 0.05, 0.0501]) = ''Moderate Bullish''
   \<and> round4 (series_mean [0.05, 0.05, 0.0501]) = 0.05
   \<and> trend (round4 (series_mean [0.05, 0.05, 0.0501])) = ''Neutral''"
  by (simp add: series_mean_def round4_def py_round_def trend_def)

section \<open>The run as a whole\<close>





lemma joiner_spec_empty:
  "(\<forall>a \<in> set news. \<forall>t \<in> set (dict_get (a_companies a) []). market t = None) \<Longrightarrow>
     joiner_spec now news market = []"
proof -
  assume none: "\<forall>a \<in> set news. \<forall>t \<in> set (dict_get (a_companies a) []). market t = None"
  have "joiner_rows now a market ts = []" if "\<forall>t \<in> set ts. market t = None" for a ts
    using that by (induction ts) (simp_all add: joiner_rows_def)
  then show ?thesis
    using none by (simp add: joiner_spec_def)
qed

lemma sort_key_sorted_wrt: "sorted_wrt (\<lambda>a b. f a \<le> f b) (sort_key f xs)"
  using sorted_sort_key [of f xs] by (simp only: sorted_map)





section \<open>Claims about the join\<close>



text \<open>
  C9. A run over zero articles returns, without error, the output whose four lists
  are empty and whose generated_at is the clock reading. So does every run whose join
  produces zero rows, and the join produces zero rows whenever no mentioned ticker has a
  quote.
\<close>

theorem run_zero_rows_empty_output:
  "run sv now [] market =
     Inr \<lparr>generated_at = now, top_10_bullish = [], top_10_bearish = [],
          aggregated = [], full_list = []\<rparr>
   \<and> (news_loop now market news [] = Inr [] \<longrightarrow>
        run sv now news market =
          Inr \<lparr>generated_at = now, top_10_bullish = [], top_10_bearish = [],
               aggregated = [], full_list = []\<rparr>)
   \<and> ((\<forall>a \<in> set news. \<forall>t \<in> set (dict_get (a_companies a) []). market t = None) \<longrightarrow>
        news_loop now market news [] = Inr [])"
proof (intro conjI impI)
  show "run sv now [] market =
     Inr \<lparr>generated_at = now, top_10_bullish = [], top_10_bearish = [],
          aggregated = [], full_list = []\<rparr>"
    by (simp add: run_def)
  show "run sv now news market =
          Inr \<lparr>generated_at = now, top_10_bullish = [], top_10_bearish = [],
               aggregated = [], full_list = []\<rparr>"
    if "news_loop now market news [] = Inr []"
    using that by (simp add: run_def)
  show "news_loop now market news [] = Inr []"
    if "\<forall>a \<in> set news. \<forall>t \<in> set (dict_get (a_companies a) []). market t = None"
    using news_loop_eq [of now market news "[]"] joiner_spec_empty [OF that, of now]
    by simp
qed

theorem run_zero_rows_empty_output_witness:
  "run stable_sort_values ''2024-01-01''
       [\<lparr>a_title = Some ''Index up'', a_summary = None, a_sentiment = Some ''positive'',
          a_companies = Some [''SPY'', ''DJI''], a_keywords = None, a_timestamp = None\<rparr>,
        \<lparr>a_title = None, a_summary = None, a_sentiment = None,
          a_companies = None, a_keywords = None, a_timestamp = None\<rparr>]
       [''AAPL'' \<mapsto> \<lparr>q_open = Some 100, q_close = Some 105, q_high = None, q_low = None,
                      q_volume = Some 60000000\<rparr>]
     = Inr \<lparr>generated_at = ''2024-01-01'', top_10_bullish = [], top_10_bearish = [],
            aggregated = [], full_list = []\<rparr>"
  using run_zero_rows_empty_output [of stable_sort_values "''2024-01-01''"
       "[''AAPL'' \<mapsto> \<lparr>q_open = Some 100, q_close = Some 105, q_high = None, q_low = None,
                      q_volume = Some 60000000\<rparr>]"
       "[\<lparr>a_title = Some ''Index up'', a_summary = None, a_sentiment = Some ''positive'',
          a_companies = Some [''SPY'', ''DJI''], a_keywords = None, a_timestamp = None\<rparr>,
        \<lparr>a_title = None, a_summary = None, a_sentiment = None,
          a_companies = None, a_keywords = None, a_timestamp = None\<rparr>]"]
  by (simp add: dict_get_def)

section \<open>The earlier correlator\<close>

text \<open>
  \<^verbatim>\<open>CorrelationAgent.run\<close> also passes over a ticker without market data and never
  raises; it returns one record per article, whose entries are the mentioned tickers that
  have market data. Unlike the join of \<^verbatim>\<open>AnalysisAgent.run\<close> it then orders the
  entries of each article by descending absolute movement.
\<close>

lemma intraday_movement_score_total:
  "intraday_movement_score e = Inr (projr (intraday_movement_score e))"
  by (simp add: intraday_movement_score_def truediv_def Let_def)

lemma related_loop_symbols:
  "\<exists>stocks. related_loop market ts acc = Inr (acc @ stocks)
     \<and> map rs_symbol stocks = filter (\<lambda>t. market t \<noteq> None) ts"
proof (induction ts arbitrary: acc)
  case Nil
  then show ?case by simp
next
  case (Cons t ts)
  show ?case
  proof (cases "market t")
    case None
    then show ?thesis using Cons.IH [of acc] by simp
  next
    case (Some entry)
    obtain score where score: "intraday_movement_score entry = Inr score"
      using intraday_movement_score_total by blast
    let ?s = "\<lparr>rs_symbol = t, rs_movement_score = score,
                rs_open = dict_get (q_open entry) 0, rs_close = dict_get (q_close entry) 0,
                rs_high = dict_get (q_high entry) 0, rs_low = dict_get (q_low entry) 0,
                rs_volume = dict_get (q_volume entry) 0\<rparr>"
    obtain stocks where "related_loop market ts (acc @ [?s]) = Inr ((acc @ [?s]) @ stocks)"
      and "map rs_symbol stocks = filter (\<lambda>t. market t \<noteq> None) ts"
      using Cons.IH [of "acc @ [?s]"] by blast
    then have "related_loop market (t # ts) acc = Inr (acc @ (?s # stocks))
        \<and> map rs_symbol (?s # stocks) = filter (\<lambda>t. market t \<noteq> None) (t # ts)"
      using Some score by simp
    then show ?thesis by blast
  qed
qed

lemma sort_by_abs_movement_props:
  "mset (sort_by_abs_movement xs) = mset xs
   \<and> sorted_wrt (\<lambda>a b. \<bar>rs_movement_score a\<bar> \<ge> \<bar>rs_movement_score b\<bar>)
        (sort_by_abs_movement xs)"
  by (simp add: sort_by_abs_movement_def sorted_wrt_rev sort_key_sorted_wrt)

lemma correlation_loop_items:
  "\<exists>items. correlation_loop now market news acc = Inr (acc @ items)
     \<and> length items = length news
     \<and> (\<forall>i < length news.
          mset (map rs_symbol (c_related_stocks_ranked (items ! i))) =
            mset (filter (\<lambda>t. market t \<noteq> None) (dict_get (a_companies (news ! i)) []))
          \<and> sorted_wrt (\<lambda>a b. \<bar>rs_movement_score a\<bar> \<ge> \<bar>rs_movement_score b\<bar>)
               (c_related_stocks_ranked (items ! i)))"
proof (induction news arbitrary: acc)
  case Nil
  then show ?case by simp
next
  case (Cons a news)
  obtain stocks where stocks: "related_loop market (dict_get (a_companies a) []) [] = Inr stocks"
    and syms: "map rs_symbol stocks = filter (\<lambda>t. market t \<noteq> None) (dict_get (a_companies a) [])"
    using related_loop_symbols [of market "dict_get (a_companies a) []" "[]"] by auto
  let ?item = "\<lparr>c_title = dict_get (a_title a) [],
                    c_summary = dict_get (a_summary a) [],
                    c_sentiment = dict_get (a_sentiment a) ''neutral'',
                    c_keywords = dict_get (a_keywords a) [],
                    c_companies_in_news = dict_get (a_companies a) [],
                    c_timestamp = dict_get (a_timestamp a) now,
                    c_related_stocks_ranked = sort_by_abs_movement stocks\<rparr>"
  obtain items where items: "correlation_loop now market news (acc @ [?item]) = Inr ((acc @ [?item]) @ items)"
    and len: "length items = length news"
    and each: "\<forall>i < length news.
          mset (map rs_symbol (c_related_stocks_ranked (items ! i))) =
            mset (filter (\<lambda>t. market t \<noteq> None) (dict_get (a_companies (news ! i)) []))
          \<and> sorted_wrt (\<lambda>a b. \<bar>rs_movement_score a\<bar> \<ge> \<bar>rs_movement_score b\<bar>)
               (c_related_stocks_ranked (items ! i))"
    using Cons.IH [of "acc @ [?item]"] by blast
  have head: "mset (map rs_symbol (c_related_stocks_ranked ?item)) =
            mset (filter (\<lambda>t. market t \<noteq> None) (dict_get (a_companies a) []))
          \<and> sorted_wrt (\<lambda>a b. \<bar>rs_movement_score a\<bar> \<ge> \<bar>rs_movement_score b\<bar>)
               (c_related_stocks_ranked ?item)"
    using sort_by_abs_movement_props [of stocks] syms
    by (metis correlation_item.select_convs(7) mset_map)
  have run: "correlation_loop now market (a # news) acc = Inr (acc @ (?item # items))"
    using stocks items by (simp add: Let_def)
  have all: "\<forall>i < length (a # news).
          mset (map rs_symbol (c_related_stocks_ranked ((?item # items) ! i))) =
            mset (filter (\<lambda>t. market t \<noteq> None) (dict_get (a_companies ((a # news) ! i)) []))
          \<and> sorted_wrt (\<lambda>a b. \<bar>rs_movement_score a\<bar> \<ge> \<bar>rs_movement_score b\<bar>)
               (c_related_stocks_ranked ((?item # items) ! i))"
  proof (intro allI impI)
    fix i assume "i < length (a # news)"
    then show "mset (map rs_symbol (c_related_stocks_ranked ((?item # items) ! i))) =
            mset (filter (\<lambda>t. market t \<noteq> None) (dict_get (a_companies ((a # news) ! i)) []))
          \<and> sorted_wrt (\<lambda>a b. \<bar>rs_movement_score a\<bar> \<ge> \<bar>rs_movement_score b\<bar>)
               (c_related_stocks_ranked ((?item # items) ! i))"
      using head each by (cases i) simp_all
  qed
  show ?case
    by (rule exI [of _ "?item # items"]) (use run len all in simp)
qed

lemma CorrelationAgent_run_matches:
  "\<exists>items. CorrelationAgent_run now news market = Inr items
     \<and> length items = length news
     \<and> (\<forall>i < length news.
          mset (map rs_symbol (c_related_stocks_ranked (items ! i))) =
            mset (filter (\<lambda>t. market t \<noteq> None) (dict_get (a_companies (news ! i)) []))
          \<and> sorted_wrt (\<lambda>a b. \<bar>rs_movement_score a\<bar> \<ge> \<bar>rs_movement_score b\<bar>)
               (c_related_stocks_ranked (items ! i)))"
  using correlation_loop_items [of now market news "[]"]
  by (simp add: CorrelationAgent_run_def)

lemma CorrelationAgent_run_reorders:
  "map (map rs_symbol \<circ> c_related_stocks_ranked)
     (projr (CorrelationAgent_run ''2024-01-01''
        [\<lparr>a_title = Some ''Market wrap'', a_summary = None, a_sentiment = Some ''neutral'',
           a_companies = Some [''AAPL'', ''SPY'', ''XOM''], a_keywords = None,
           a_timestamp = None\<rparr>]
        [''AAPL'' \<mapsto> \<lparr>q_open = Some 100, q_close = Some 101, q_high = None, q_low = None,
                       q_volume = Some 60000000\<rparr>,
         ''XOM'' \<mapsto> \<lparr>q_open = Some 50, q_close = Some 49, q_high = None, q_low = None,
                      q_volume = Some 500000\<rparr>]))
   = [[''XOM'', ''AAPL'']]"
  by code_simp

section \<open>Claims about the ranking\<close>




section \<open>The two scenarios of the specification\<close>

text \<open>
  A 5-star article on AAPL with open 100, close 105 and volume 60,000,000 gives sentiment
  1.0, movement 0.05, volume score 1.0, impact 0.6675 and Strong Bullish; a 1-star article
  on XOM with open 50, close 49 and volume 500,000 gives -1.0, -0.02, 0.0, -0.457 and
  Strong Bearish.
\<close>

lemma scenario_aapl:
  "map (\<lambda>r. (r_sentiment_num r, r_movement_score r, r_volume_score r, r_impact_score r,
              r_trend r))
     (full_list (projr (run stable_sort_values ''2024-01-01''
        [\<lparr>a_title = None, a_summary = None, a_sentiment = Some ''5 stars'',
           a_companies = Some [''AAPL''], a_keywords = None, a_timestamp = None\<rparr>]
        [''AAPL'' \<mapsto> \<lparr>q_open = Some 100, q_close = Some 105, q_high = None, q_low = None,
                       q_volume = Some 60000000\<rparr>])))
   = [(1, 0.05, 1, 0.6675, ''Strong Bullish'')]"
  by code_simp

lemma scenario_xom:
  "map (\<lambda>r. (r_sentiment_num r, r_movement_score r, r_volume_score r, r_impact_score r,
              r_trend r))
     (full_list (projr (run stable_sort_values ''2024-01-01''
        [\<lparr>a_title = None, a_summary = None, a_sentiment = Some ''1 star'',
           a_companies = Some [''XOM''], a_keywords = None, a_timestamp = None\<rparr>]
        [''XOM'' \<mapsto> \<lparr>q_open = Some 50, q_close = Some 49, q_high = None, q_low = None,
                      q_volume = Some 500000\<rparr>])))
   = [(- 1, - 0.02, 0, - 0.457, ''Strong Bearish'')]"
  by code_simp


end
